theory Spec2Isabelle
  imports
    Complex_Main
    "HOL-Library.Char_ord"
    "HOL-Library.List_Lexorder"
    "HOL-Library.Product_Lexorder"
    "HOL-Library.Option_ord"
    "HOL-Library.Multiset"
begin

section \<open>Expense ledger: the two MCP servers over one SQLite table\<close>

text \<open>
  The repository holds two variants of the same tool surface:
  \<^item> \<^verbatim>\<open>expense-tracker-mcp-server/main.py\<close>, the base variant (synchronous
    \<^verbatim>\<open>sqlite3\<close>, no failure wrapper); its functions carry the suffix \<open>_base\<close>;
  \<^item> \<^verbatim>\<open>test-remote-mcp-server/main.py\<close>, the extended variant (\<^verbatim>\<open>aiosqlite\<close>,
    every tool wrapped in \<^verbatim>\<open>try/except\<close>); its functions carry the suffix \<open>_ext\<close>.

  Every tool executes one SQL statement against the table \<^verbatim>\<open>expenses\<close>. The model
  passes the database explicitly: a tool takes the database and returns its result
  together with the database after the call.

  Conventions of the embedding.
  \<^item> Text is a \<open>string\<close> of bytes, the well-formed UTF-8 that Python's \<^verbatim>\<open>str\<close> encodes
    to and SQLite stores; the order on \<open>string\<close> is bytewise lexicographic with a proper
    prefix smaller, which is SQLite's \<^verbatim>\<open>BINARY\<close> collation.
  \<^item> The type variable \<open>'f\<close> stands for the double-precision values other than NaN,
    which are the values of a \<^verbatim>\<open>REAL\<close> column. The model does not compute with them:
    rounding an integer to a double, the truth value of a float, the aggregate
    \<^verbatim>\<open>SUM\<close> and the comparison of two values are parameters (the record \<open>numerics\<close>).
  \<^item> A nullable argument is an \<open>option\<close>: \<open>None\<close> is Python's \<^verbatim>\<open>None\<close>. Text arguments
    are text, the amount is a Python number, the id is a Python integer.
  \<^item> The storage engine is available: opening the connection and running a
    statement fail only through the checks written out below (a parameter that cannot
    be bound, \<^verbatim>\<open>NOT NULL\<close>, the exhausted rowid space, the length limit of a
    \<^verbatim>\<open>LIKE\<close> pattern).
\<close>

subsection \<open>Values, results and the stored table\<close>

datatype 'f pyval = PNone | PInt int | PFloat 'f | PStr string

type_synonym 'f pydict = "(string \<times> 'f pyval) list"

text \<open>
  The exceptions of the model: two of \<^verbatim>\<open>sqlite3\<close> and Python's own \<^verbatim>\<open>OverflowError\<close>, each
  with the text that \<^verbatim>\<open>str(e)\<close> gives.
\<close>

datatype exn = IntegrityError string | OperationalError string | OverflowError string

fun str_error :: "exn \<Rightarrow> string" where
  "str_error (IntegrityError m) = m"
| "str_error (OperationalError m) = m"
| "str_error (OverflowError m) = m"

text \<open>
  What a tool call produces: a single dictionary, a sequence of row dictionaries, or
  an exception that leaves the tool and reaches the dispatch layer (\<open>Fault\<close>).
\<close>

datatype 'f tool_result = Reply "'f pydict" | Records "'f pydict list" | Fault exn

text \<open>
  The dictionary that the \<^verbatim>\<open>except\<close> clauses of the extended variant return.
\<close>

definition error_reply :: "exn \<Rightarrow> 'f tool_result" where
  "error_reply e = Reply [(''status'', PStr ''error''), (''message'', PStr (str_error e))]"

text \<open>
  The table of \<^verbatim>\<open>init_db\<close>:
  \<^verbatim>\<open>id INTEGER PRIMARY KEY AUTOINCREMENT, date TEXT NOT NULL, amount REAL NOT NULL,
  category TEXT NOT NULL, subcategory TEXT DEFAULT '', note TEXT DEFAULT ''\<close>.
  The three \<^verbatim>\<open>NOT NULL\<close> columns are not options; the other two may hold NULL.
\<close>

record 'f expense =
  expense_id :: int
  date :: string
  amount :: 'f
  category :: string
  subcategory :: "string option"
  note_text :: "string option"

text \<open>
  The database: the rows in rowid order and the counter that \<^verbatim>\<open>AUTOINCREMENT\<close> keeps
  in \<^verbatim>\<open>sqlite_sequence\<close> (the largest rowid the table has ever held).
\<close>

record 'f database =
  rows :: "'f expense list"
  seq :: int

definition init_db :: "'f database" where
  "init_db = \<lparr>rows = [], seq = 0\<rparr>"

definition wf_db :: "'f database \<Rightarrow> bool" where
  "wf_db db \<longleftrightarrow>
     distinct (map expense_id (rows db)) \<and>
     list_all (\<lambda>r. expense_id r \<le> seq db) (rows db)"

subsection \<open>Doubles\<close>

text \<open>
  What the tools need of double-precision arithmetic and do not compute themselves:
  \<^item> \<open>to_real\<close>: the double that a \<^verbatim>\<open>REAL\<close> column stores for a 64-bit integer;
  \<^item> \<open>float_truth\<close>: Python's truth value of a float that is not NaN (false for the
    two zeros);
  \<^item> \<open>sql_sum\<close>: SQLite's aggregate \<^verbatim>\<open>SUM\<close> over the values of a group, in the order
    of the rows; it is NULL when the floating-point sum is NaN;
  \<^item> \<open>real_le\<close>: SQLite's comparison of two \<^verbatim>\<open>REAL\<close> values in \<^verbatim>\<open>ORDER BY\<close>.
\<close>

record 'f numerics =
  to_real :: "int \<Rightarrow> 'f"
  float_truth :: "'f \<Rightarrow> bool"
  sql_sum :: "'f list \<Rightarrow> 'f option"
  real_le :: "'f \<Rightarrow> 'f \<Rightarrow> bool"

text \<open>A Python number passed as amount: an integer, a float, or the float NaN.\<close>

datatype 'f pynum = PyInt int | PyFloat 'f | PyNaN

subsection \<open>Binding parameters\<close>

text \<open>
  \<^verbatim>\<open>sqlite3\<close> binds a Python integer as a 64-bit \<^verbatim>\<open>INTEGER\<close> and raises
  \<^verbatim>\<open>OverflowError\<close> for an integer outside that range, before the statement runs. It
  binds \<^verbatim>\<open>None\<close> and NaN as NULL. An integer stored in the \<^verbatim>\<open>REAL\<close> column \<^verbatim>\<open>amount\<close>
  becomes the nearest double.
\<close>

definition MAX_ROWID :: int where
  "MAX_ROWID = 9223372036854775807"

definition MIN_INT64 :: int where
  "MIN_INT64 = - 9223372036854775808"

definition in_int64 :: "int \<Rightarrow> bool" where
  "in_int64 i \<longleftrightarrow> MIN_INT64 \<le> i \<and> i \<le> MAX_ROWID"

definition too_large :: exn where
  "too_large = OverflowError ''Python int too large to convert to SQLite INTEGER''"

definition bind_int :: "int \<Rightarrow> exn + int" where
  "bind_int i = (if in_int64 i then Inr i else Inl too_large)"

fun bind_amount :: "'f numerics \<Rightarrow> 'f pynum option \<Rightarrow> exn + 'f option" where
  "bind_amount N None = Inr None"
| "bind_amount N (Some (PyInt i)) = (if in_int64 i then Inr (Some (to_real N i)) else Inl too_large)"
| "bind_amount N (Some (PyFloat x)) = Inr (Some x)"
| "bind_amount N (Some PyNaN) = Inr None"

subsection \<open>The SQL statements\<close>

definition largest_rowid :: "'f database \<Rightarrow> int" where
  "largest_rowid db = fold max (map expense_id (rows db)) (seq db)"

text \<open>
  \<^verbatim>\<open>INSERT INTO expenses(date, amount, category, subcategory, note) VALUES (?,?,?,?,?)\<close>
  with the bound values. With \<^verbatim>\<open>AUTOINCREMENT\<close> the new rowid is one more than the largest
  rowid the table has ever held, and the insert fails once that is the largest 64-bit
  integer. The \<^verbatim>\<open>NOT NULL\<close> columns are checked in column order. A failed statement
  changes nothing.
\<close>

definition sql_insert ::
  "'f database \<Rightarrow> string option \<Rightarrow> 'f option \<Rightarrow> string option \<Rightarrow> string option \<Rightarrow> string option
     \<Rightarrow> exn + ('f database \<times> int)" where
  "sql_insert db d a c s n =
     (if MAX_ROWID \<le> largest_rowid db then Inl (OperationalError ''database or disk is full'')
      else case d of
        None \<Rightarrow> Inl (IntegrityError ''NOT NULL constraint failed: expenses.date'')
      | Some dv \<Rightarrow>
         (case a of
            None \<Rightarrow> Inl (IntegrityError ''NOT NULL constraint failed: expenses.amount'')
          | Some av \<Rightarrow>
             (case c of
                None \<Rightarrow> Inl (IntegrityError ''NOT NULL constraint failed: expenses.category'')
              | Some cv \<Rightarrow>
                 (let rowid = largest_rowid db + 1;
                      r = \<lparr>expense_id = rowid, date = dv, amount = av, category = cv,
                           subcategory = s, note_text = n\<rparr>
                  in Inr (db\<lparr>rows := rows db @ [r], seq := rowid\<rparr>, rowid)))))"

text \<open>
  \<^verbatim>\<open>edit_expense\<close> builds the \<^verbatim>\<open>SET\<close> clause from two lists that grow together: an entry
  of \<^verbatim>\<open>fields\<close>, which names the column, and the entry of \<^verbatim>\<open>params\<close> for its \<^verbatim>\<open>?\<close>.
  A \<open>field\<close> is such a pair before binding, an \<open>assignment\<close> the pair with the bound
  value.
\<close>

datatype 'f field =
    DateField string
  | AmountField "'f pynum"
  | CategoryField string
  | SubcategoryField string
  | NoteField string

datatype 'f assignment =
    SetDate string
  | SetAmount "'f option"
  | SetCategory string
  | SetSubcategory string
  | SetNote string

fun bind_field :: "'f numerics \<Rightarrow> 'f field \<Rightarrow> exn + 'f assignment" where
  "bind_field N (DateField v) = Inr (SetDate v)"
| "bind_field N (AmountField v) =
     (case bind_amount N (Some v) of Inl e \<Rightarrow> Inl e | Inr a \<Rightarrow> Inr (SetAmount a))"
| "bind_field N (CategoryField v) = Inr (SetCategory v)"
| "bind_field N (SubcategoryField v) = Inr (SetSubcategory v)"
| "bind_field N (NoteField v) = Inr (SetNote v)"

fun bind_fields :: "'f numerics \<Rightarrow> 'f field list \<Rightarrow> exn + 'f assignment list" where
  "bind_fields N [] = Inr []"
| "bind_fields N (f # fs) =
     (case bind_field N f of
        Inl e \<Rightarrow> Inl e
      | Inr a \<Rightarrow> (case bind_fields N fs of Inl e \<Rightarrow> Inl e | Inr as \<Rightarrow> Inr (a # as)))"

text \<open>
  An assignment applied to a row. A NULL amount is never stored: \<open>sql_update\<close> refuses
  it first.
\<close>

fun assign :: "'f expense \<Rightarrow> 'f assignment \<Rightarrow> 'f expense" where
  "assign r (SetDate v) = r\<lparr>date := v\<rparr>"
| "assign r (SetAmount a) = (case a of None \<Rightarrow> r | Some v \<Rightarrow> r\<lparr>amount := v\<rparr>)"
| "assign r (SetCategory v) = r\<lparr>category := v\<rparr>"
| "assign r (SetSubcategory v) = r\<lparr>subcategory := Some v\<rparr>"
| "assign r (SetNote v) = r\<lparr>note_text := Some v\<rparr>"

text \<open>
  \<^verbatim>\<open>UPDATE expenses SET ... WHERE id = ?\<close>: the assignments are applied, in order, to
  every row with the id; the second component is \<^verbatim>\<open>cur.rowcount\<close>. Setting the amount
  of a row to NULL violates \<^verbatim>\<open>NOT NULL\<close>; without a row with the id nothing is checked.
\<close>

definition sql_update ::
  "'f database \<Rightarrow> 'f assignment list \<Rightarrow> int \<Rightarrow> exn + ('f database \<times> nat)" where
  "sql_update db sets i =
     (if SetAmount None \<in> set sets \<and> filter (\<lambda>r. expense_id r = i) (rows db) \<noteq> []
      then Inl (IntegrityError ''NOT NULL constraint failed: expenses.amount'')
      else Inr (db\<lparr>rows := map (\<lambda>r. if expense_id r = i then foldl assign r sets else r) (rows db)\<rparr>,
                length (filter (\<lambda>r. expense_id r = i) (rows db))))"

text \<open>\<^verbatim>\<open>DELETE FROM expenses WHERE id = ?\<close>, with \<^verbatim>\<open>cur.rowcount\<close>.\<close>

definition sql_delete :: "'f database \<Rightarrow> int \<Rightarrow> 'f database \<times> nat" where
  "sql_delete db i =
     (db\<lparr>rows := filter (\<lambda>r. expense_id r \<noteq> i) (rows db)\<rparr>,
      length (filter (\<lambda>r. expense_id r = i) (rows db)))"

subsection \<open>Truthiness\<close>

text \<open>
  The extended variant tests its optional arguments with \<^verbatim>\<open>if x:\<close>, which is false for
  \<^verbatim>\<open>None\<close>, for the empty string and for a zero amount, and true for NaN.
\<close>

fun truthy_str :: "string option \<Rightarrow> bool" where
  "truthy_str None = False"
| "truthy_str (Some s) = (s \<noteq> [])"

fun truthy_num :: "'f numerics \<Rightarrow> 'f pynum option \<Rightarrow> bool" where
  "truthy_num N None = False"
| "truthy_num N (Some (PyInt i)) = (i \<noteq> 0)"
| "truthy_num N (Some (PyFloat x)) = float_truth N x"
| "truthy_num N (Some PyNaN) = True"

subsection \<open>\<^verbatim>\<open>edit_expense\<close>\<close>

text \<open>
  \<^verbatim>\<open>params.append(expense_id)\<close> and \<^verbatim>\<open>c.execute(query, params)\<close>: the values are bound,
  the id last, then the statement runs.
\<close>

definition execute_update ::
  "'f numerics \<Rightarrow> 'f database \<Rightarrow> 'f field list \<Rightarrow> int \<Rightarrow> exn + ('f database \<times> nat)" where
  "execute_update N db fs i =
     (case bind_fields N fs of
        Inl e \<Rightarrow> Inl e
      | Inr sets \<Rightarrow> (case bind_int i of Inl e \<Rightarrow> Inl e | Inr j \<Rightarrow> sql_update db sets j))"

text \<open>
  Base variant: a field is appended when the argument \<^verbatim>\<open>is not None\<close>. An exception
  leaves the function and the \<^verbatim>\<open>with\<close> block rolls back; otherwise it commits.
\<close>

definition edit_fields_base ::
  "string option \<Rightarrow> 'f pynum option \<Rightarrow> string option \<Rightarrow> string option \<Rightarrow> string option
     \<Rightarrow> 'f field list" where
  "edit_fields_base d a c s n =
     (case d of None \<Rightarrow> [] | Some v \<Rightarrow> [DateField v]) @
     (case a of None \<Rightarrow> [] | Some v \<Rightarrow> [AmountField v]) @
     (case c of None \<Rightarrow> [] | Some v \<Rightarrow> [CategoryField v]) @
     (case s of None \<Rightarrow> [] | Some v \<Rightarrow> [SubcategoryField v]) @
     (case n of None \<Rightarrow> [] | Some v \<Rightarrow> [NoteField v])"

definition edit_expense_base ::
  "'f numerics \<Rightarrow> 'f database \<Rightarrow> int \<Rightarrow> string option \<Rightarrow> 'f pynum option \<Rightarrow> string option
     \<Rightarrow> string option \<Rightarrow> string option \<Rightarrow> 'f tool_result \<times> 'f database" where
  "edit_expense_base N db i d a c s n =
     (let fs = edit_fields_base d a c s n in
      if fs = [] then
        (Reply [(''status'', PStr ''error''), (''message'', PStr ''No fields provided to update'')], db)
      else
        (case execute_update N db fs i of
           Inl e \<Rightarrow> (Fault e, db)
         | Inr (db', rowcount) \<Rightarrow>
             (Reply [(''status'', PStr ''ok''), (''rows_updated'', PInt (int rowcount))], db')))"

text \<open>
  Extended variant: a field is appended when the argument is truthy; an exception is
  caught and reported.
\<close>

definition edit_fields_ext ::
  "'f numerics \<Rightarrow> string option \<Rightarrow> 'f pynum option \<Rightarrow> string option \<Rightarrow> string option
     \<Rightarrow> string option \<Rightarrow> 'f field list" where
  "edit_fields_ext N d a c s n =
     (case d of Some v \<Rightarrow> if truthy_str d then [DateField v] else [] | None \<Rightarrow> []) @
     (case a of Some v \<Rightarrow> if truthy_num N a then [AmountField v] else [] | None \<Rightarrow> []) @
     (case c of Some v \<Rightarrow> if truthy_str c then [CategoryField v] else [] | None \<Rightarrow> []) @
     (case s of Some v \<Rightarrow> if truthy_str s then [SubcategoryField v] else [] | None \<Rightarrow> []) @
     (case n of Some v \<Rightarrow> if truthy_str n then [NoteField v] else [] | None \<Rightarrow> [])"

definition edit_expense_ext ::
  "'f numerics \<Rightarrow> 'f database \<Rightarrow> int \<Rightarrow> string option \<Rightarrow> 'f pynum option \<Rightarrow> string option
     \<Rightarrow> string option \<Rightarrow> string option \<Rightarrow> 'f tool_result \<times> 'f database" where
  "edit_expense_ext N db i d a c s n =
     (let fs = edit_fields_ext N d a c s n in
      if fs = [] then
        (Reply [(''status'', PStr ''error''), (''message'', PStr ''No fields provided'')], db)
      else
        (case execute_update N db fs i of
           Inl e \<Rightarrow> (error_reply e, db)
         | Inr (db', rowcount) \<Rightarrow>
             (Reply [(''status'', PStr ''ok''), (''rows_updated'', PInt (int rowcount))], db')))"

subsection \<open>\<^verbatim>\<open>add_expense\<close>\<close>

text \<open>
  The defaults of \<^verbatim>\<open>subcategory\<close> and \<^verbatim>\<open>note\<close>, the empty string, are \<open>Some []\<close> at
  the call. The amount is bound, then the statement runs. Base variant: the exception
  of a failed insert leaves the function and the \<^verbatim>\<open>with\<close> block rolls back. Extended
  variant: the exception is caught and reported.
\<close>

definition execute_insert ::
  "'f numerics \<Rightarrow> 'f database \<Rightarrow> string option \<Rightarrow> 'f pynum option \<Rightarrow> string option
     \<Rightarrow> string option \<Rightarrow> string option \<Rightarrow> exn + ('f database \<times> int)" where
  "execute_insert N db d a c s n =
     (case bind_amount N a of Inl e \<Rightarrow> Inl e | Inr av \<Rightarrow> sql_insert db d av c s n)"

definition add_expense_base ::
  "'f numerics \<Rightarrow> 'f database \<Rightarrow> string option \<Rightarrow> 'f pynum option \<Rightarrow> string option
     \<Rightarrow> string option \<Rightarrow> string option \<Rightarrow> 'f tool_result \<times> 'f database" where
  "add_expense_base N db d a c s n =
     (case execute_insert N db d a c s n of
        Inl e \<Rightarrow> (Fault e, db)
      | Inr (db', lastrowid) \<Rightarrow> (Reply [(''status'', PStr ''ok''), (''id'', PInt lastrowid)], db'))"

definition add_expense_ext ::
  "'f numerics \<Rightarrow> 'f database \<Rightarrow> string option \<Rightarrow> 'f pynum option \<Rightarrow> string option
     \<Rightarrow> string option \<Rightarrow> string option \<Rightarrow> 'f tool_result \<times> 'f database" where
  "add_expense_ext N db d a c s n =
     (case execute_insert N db d a c s n of
        Inl e \<Rightarrow> (error_reply e, db)
      | Inr (db', lastrowid) \<Rightarrow> (Reply [(''status'', PStr ''ok''), (''id'', PInt lastrowid)], db'))"

subsection \<open>\<^verbatim>\<open>delete_expense\<close>\<close>

definition execute_delete :: "'f database \<Rightarrow> int \<Rightarrow> exn + ('f database \<times> nat)" where
  "execute_delete db i = (case bind_int i of Inl e \<Rightarrow> Inl e | Inr j \<Rightarrow> Inr (sql_delete db j))"

definition delete_expense_base :: "'f database \<Rightarrow> int \<Rightarrow> 'f tool_result \<times> 'f database" where
  "delete_expense_base db i =
     (case execute_delete db i of
        Inl e \<Rightarrow> (Fault e, db)
      | Inr (db', rowcount) \<Rightarrow>
          (Reply [(''status'', PStr ''ok''), (''rows_deleted'', PInt (int rowcount))], db'))"

definition delete_expense_ext :: "'f database \<Rightarrow> int \<Rightarrow> 'f tool_result \<times> 'f database" where
  "delete_expense_ext db i =
     (case execute_delete db i of
        Inl e \<Rightarrow> (error_reply e, db)
      | Inr (db', rowcount) \<Rightarrow>
          (Reply [(''status'', PStr ''ok''), (''rows_deleted'', PInt (int rowcount))], db'))"

subsection \<open>\<^verbatim>\<open>list_expenses\<close>\<close>

fun py_text :: "string option \<Rightarrow> 'f pyval" where
  "py_text None = PNone"
| "py_text (Some s) = PStr s"

text \<open>\<^verbatim>\<open>dict(zip(cols, r))\<close> for the six selected columns.\<close>

definition row_dict :: "'f expense \<Rightarrow> 'f pydict" where
  "row_dict r =
     [(''id'', PInt (expense_id r)), (''date'', PStr (date r)), (''amount'', PFloat (amount r)),
      (''category'', PStr (category r)), (''subcategory'', py_text (subcategory r)),
      (''note'', py_text (note_text r))]"




subsection \<open>\<^verbatim>\<open>GROUP BY\<close> with the aggregates \<^verbatim>\<open>SUM\<close> and \<^verbatim>\<open>COUNT\<close>\<close>





subsection \<open>\<^verbatim>\<open>summarize\<close>\<close>







subsection \<open>\<^verbatim>\<open>search_expenses\<close> (extended variant)\<close>

text \<open>
  SQLite's \<^verbatim>\<open>LIKE\<close> without \<^verbatim>\<open>ESCAPE\<close>, on well-formed UTF-8: \<^verbatim>\<open>%\<close> matches any sequence
  of characters, \<^verbatim>\<open>_\<close> matches one character (one UTF-8 sequence: a lead byte with its
  continuation bytes), any other character matches itself, ASCII letters without
  regard to case. Pattern and text both end at their first NUL byte. A pattern of more
  than 50000 bytes (counted with what follows a NUL) is an error.
\<close>

definition lower_ascii :: "char \<Rightarrow> char" where
  "lower_ascii c =
     (if CHR ''A'' \<le> c \<and> c \<le> CHR ''Z'' then char_of (of_char c + (32::nat)) else c)"

definition is_continuation :: "char \<Rightarrow> bool" where
  "is_continuation c \<longleftrightarrow> (128::nat) \<le> of_char c \<and> of_char c < (192::nat)"

definition skip_utf8 :: "char \<Rightarrow> string \<Rightarrow> string" where
  "skip_utf8 c cs = (if (192::nat) \<le> of_char c then dropWhile is_continuation cs else cs)"

function like :: "string \<Rightarrow> string \<Rightarrow> bool" where
  "like [] t = (t = [])"
| "like (p # ps) [] = (p = CHR ''%'' \<and> like ps [])"
| "like (p # ps) (c # cs) =
     (if p = CHR ''%'' then like ps (c # cs) \<or> like (p # ps) (skip_utf8 c cs)
      else if p = CHR ''_'' then like ps (skip_utf8 c cs)
      else lower_ascii p = lower_ascii c \<and> like ps cs)"
  by pat_completeness auto
termination
  by (relation "measure (\<lambda>(p, t). length p + length t)")
    (auto simp: skip_utf8_def less_Suc_eq_le intro!: le_SucI length_dropWhile_le)

definition c_string :: "string \<Rightarrow> string" where
  "c_string s = takeWhile (\<lambda>c. c \<noteq> CHR 0x00) s"

definition sql_like :: "string \<Rightarrow> string \<Rightarrow> bool" where
  "sql_like p t = like (c_string p) (c_string t)"

text \<open>A NULL operand makes \<^verbatim>\<open>LIKE\<close> NULL, which \<^verbatim>\<open>OR\<close> and \<^verbatim>\<open>WHERE\<close> treat as not true.\<close>

fun like_nullable :: "string \<Rightarrow> string option \<Rightarrow> bool" where
  "like_nullable p None = False"
| "like_nullable p (Some t) = sql_like p t"

definition MAX_LIKE_PATTERN_LENGTH :: nat where
  "MAX_LIKE_PATTERN_LENGTH = 50000"

text \<open>
  The pattern is the keyword between two \<^verbatim>\<open>%\<close>, bound three times. The length of the
  pattern is checked when \<^verbatim>\<open>LIKE\<close> is evaluated for a row, so an empty table gives no
  error. \<^verbatim>\<open>ORDER BY date DESC\<close> leaves the order of rows with equal dates open; SQLite
  keeps them in the order of the table, and so does the model.
\<close>

definition search_expenses :: "'f database \<Rightarrow> string \<Rightarrow> 'f tool_result" where
  "search_expenses db keyword =
     (let pattern = ''%'' @ keyword @ ''%'' in
      if rows db \<noteq> [] \<and> MAX_LIKE_PATTERN_LENGTH < length pattern
      then error_reply (OperationalError ''LIKE or GLOB pattern too complex'')
      else Records (map row_dict
        (rev (sort_key date (rev
           (filter (\<lambda>r. like_nullable pattern (note_text r) \<or> sql_like pattern (category r) \<or>
                        like_nullable pattern (subcategory r))
              (rows db)))))))"

subsection \<open>\<^verbatim>\<open>monthly_report\<close> (extended variant)\<close>







subsection \<open>The \<^verbatim>\<open>categories\<close> resource\<close>

text \<open>
  The categories document is one file: \<open>None\<close> when it does not exist, otherwise its
  text. Opening a missing file for reading raises \<^verbatim>\<open>FileNotFoundError\<close>; opening for
  writing creates or replaces the file.
\<close>

type_synonym document = "string option"

datatype io_error = FileNotFoundError

datatype resource_result =
    Payload string
  | ErrorPayload io_error
  | ResourceFault io_error

definition path_exists :: "document \<Rightarrow> bool" where
  "path_exists doc \<longleftrightarrow> doc \<noteq> None"

definition write_text :: "document \<Rightarrow> string \<Rightarrow> document" where
  "write_text doc t = Some t"

definition read_text :: "document \<Rightarrow> io_error + string" where
  "read_text doc = (case doc of None \<Rightarrow> Inl FileNotFoundError | Some t \<Rightarrow> Inr t)"

text \<open>Base variant: read the file; an exception leaves the function.\<close>

definition categories_base :: "document \<Rightarrow> resource_result \<times> document" where
  "categories_base doc =
     (case read_text doc of
        Inl e \<Rightarrow> (ResourceFault e, doc)
      | Inr t \<Rightarrow> (Payload t, doc))"

text \<open>
  Extended variant. \<^verbatim>\<open>json.dump(default_categories, f, indent=2)\<close> writes the one-key
  dictionary with each level indented by two more spaces, the items of the list on
  lines of their own, separated by commas. The ten labels are printable ASCII without
  quotes or backslashes, so \<^verbatim>\<open>json\<close> writes them between double quotes as they are; the
  two escapes below are the ones a label of that kind could need.
\<close>

definition default_categories :: "string list" where
  "default_categories =
     [''Food & Dining'', ''Transportation'', ''Shopping'', ''Entertainment'',
      ''Bills & Utilities'', ''Healthcare'', ''Travel'', ''Education'',
      ''Business'', ''Other'']"

definition json_string :: "string \<Rightarrow> string" where
  "json_string s =
     [CHR 0x22] @
     concat (map (\<lambda>c. if c = CHR 0x22 \<or> c = CHR 0x5C then [CHR 0x5C, c] else [c]) s) @
     [CHR 0x22]"

fun join_lines :: "string list \<Rightarrow> string" where
  "join_lines [] = []"
| "join_lines [x] = x"
| "join_lines (x # y # ys) = x @ '','' @ [CHR 0x0A] @ join_lines (y # ys)"

definition json_dump_indent2 :: "string \<Rightarrow> string list \<Rightarrow> string" where
  "json_dump_indent2 key items =
     ''{'' @ [CHR 0x0A] @ ''  '' @ json_string key @ '': '' @
     (if items = [] then ''[]''
      else ''['' @ [CHR 0x0A] @ join_lines (map (\<lambda>s. ''    '' @ json_string s) items) @
           [CHR 0x0A] @ ''  ]'') @
     [CHR 0x0A] @ ''}''"

text \<open>
  \<^verbatim>\<open>try: if not exists: write the default; read and return; except: return the error as JSON\<close>.
  \<open>ErrorPayload e\<close> stands for \<^verbatim>\<open>json.dumps({"error": str(e)})\<close>.
\<close>

definition categories_ext :: "document \<Rightarrow> resource_result \<times> document" where
  "categories_ext doc =
     (let doc' = (if \<not> path_exists doc
                  then write_text doc (json_dump_indent2 ''categories'' default_categories)
                  else doc)
      in case read_text doc' of
           Inl e \<Rightarrow> (ErrorPayload e, doc')
         | Inr t \<Rightarrow> (Payload t, doc'))"

subsection \<open>Sessions\<close>

text \<open>
  A session is a sequence of calls of the tools that write. The tools that only read
  return no database and leave it as it is.
\<close>

datatype 'f call =
    AddExpense "string option" "'f pynum option" "string option" "string option" "string option"
  | EditExpense int "string option" "'f pynum option" "string option" "string option"
      "string option"
  | DeleteExpense int

datatype variant = Base | Extended

fun perform ::
  "variant \<Rightarrow> 'f numerics \<Rightarrow> 'f database \<Rightarrow> 'f call \<Rightarrow> 'f tool_result \<times> 'f database" where
  "perform Base N db (AddExpense d a c s n) = add_expense_base N db d a c s n"
| "perform Base N db (EditExpense i d a c s n) = edit_expense_base N db i d a c s n"
| "perform Base N db (DeleteExpense i) = delete_expense_base db i"
| "perform Extended N db (AddExpense d a c s n) = add_expense_ext N db d a c s n"
| "perform Extended N db (EditExpense i d a c s n) = edit_expense_ext N db i d a c s n"
| "perform Extended N db (DeleteExpense i) = delete_expense_ext db i"

fun session ::
  "variant \<Rightarrow> 'f numerics \<Rightarrow> 'f database \<Rightarrow> 'f call list
     \<Rightarrow> 'f tool_result list \<times> 'f database" where
  "session v N db [] = ([], db)"
| "session v N db (c # cs) =
     (let (res, db') = perform v N db c; (ress, db'') = session v N db' cs
      in (res # ress, db''))"

text \<open>The id a successful \<^verbatim>\<open>add_expense\<close> returned: the entry \<^verbatim>\<open>id\<close> of its dictionary.\<close>

fun returned_id :: "'f tool_result \<Rightarrow> int option" where
  "returned_id (Reply d) = (case map_of d ''id'' of Some (PInt i) \<Rightarrow> Some i | _ \<Rightarrow> None)"
| "returned_id _ = None"

definition created_ids :: "'f tool_result list \<Rightarrow> int list" where
  "created_ids ress = List.map_filter returned_id ress"

subsection \<open>Reference definitions for the claims\<close>



text \<open>A text without a NUL byte, and a text that does not begin inside a character.\<close>

definition nul_free :: "string \<Rightarrow> bool" where
  "nul_free s \<longleftrightarrow> CHR 0x00 \<notin> set s"

fun starts_char :: "string \<Rightarrow> bool" where
  "starts_char [] = True"
| "starts_char (c # cs) = (\<not> is_continuation c)"


subsection \<open>Sample data\<close>


text \<open>
  Numerics for evaluating the tools on concrete amounts: rationals with exact
  arithmetic, which agree with doubles on the amounts of the sample ledger (12.5, 40, 3
  and their sums are doubles and are added without rounding).
\<close>

definition exact :: "rat numerics" where
  "exact = \<lparr>to_real = of_int, float_truth = (\<lambda>x. x \<noteq> 0),
            sql_sum = (\<lambda>xs. Some (sum_list xs)), real_le = (\<le>)\<rparr>"

text \<open>Three rows after three inserts.\<close>

definition example_lunch :: "rat expense" where
  "example_lunch =
     \<lparr>expense_id = 1, date = ''2024-01-15'', amount = 25 / 2, category = ''Food'',
      subcategory = Some '''', note_text = Some ''lunch''\<rparr>"

definition example_flight :: "rat expense" where
  "example_flight =
     \<lparr>expense_id = 2, date = ''2024-02-01'', amount = 40, category = ''Travel'',
      subcategory = None, note_text = None\<rparr>"

definition example_dinner :: "rat expense" where
  "example_dinner =
     \<lparr>expense_id = 3, date = ''2024-01-31'', amount = 3, category = ''Food'',
      subcategory = Some ''x'', note_text = Some ''''\<rparr>"

definition example_db :: "rat database" where
  "example_db = \<lparr>rows = [example_lunch, example_flight, example_dinner], seq = 3\<rparr>"

section \<open>Properties\<close>

lemmas example_defs = example_db_def example_lunch_def example_flight_def example_dinner_def

subsection \<open>Grouping\<close>
















subsection \<open>Patch without fields\<close>

lemma edit_fields_ext_falsy:
  "\<not> truthy_str d \<Longrightarrow> \<not> truthy_num N a \<Longrightarrow> \<not> truthy_str c \<Longrightarrow> \<not> truthy_str s \<Longrightarrow> \<not> truthy_str n \<Longrightarrow>
   edit_fields_ext N d a c s n = []"
  by (cases d; cases a; cases c; cases s; cases n) (simp_all add: edit_fields_ext_def)

text \<open>
  Claim C1. A call of \<^verbatim>\<open>edit_expense\<close> in which every optional field resolves as
  not provided returns the dictionary with status \<^verbatim>\<open>error\<close> and the variant's
  no-fields message, and the database after the call is the database before it: no
  \<^verbatim>\<open>UPDATE\<close> runs. In the base variant not provided means \<^verbatim>\<open>None\<close>; in the extended
  variant it means falsy (\<^verbatim>\<open>None\<close>, the empty string, a zero amount).
\<close>

theorem C1_edit_without_fields:
  "edit_expense_base N db i None None None None None =
     (Reply [(''status'', PStr ''error''), (''message'', PStr ''No fields provided to update'')], db)
   \<and> (\<not> truthy_str d \<and> \<not> truthy_num N a \<and> \<not> truthy_str c \<and> \<not> truthy_str s \<and> \<not> truthy_str n \<longrightarrow>
      edit_expense_ext N db i d a c s n =
        (Reply [(''status'', PStr ''error''), (''message'', PStr ''No fields provided'')], db))"
proof (intro conjI impI)
  show "edit_expense_base N db i None None None None None =
     (Reply [(''status'', PStr ''error''), (''message'', PStr ''No fields provided to update'')], db)"
    by (simp add: edit_expense_base_def edit_fields_base_def)
next
  assume "\<not> truthy_str d \<and> \<not> truthy_num N a \<and> \<not> truthy_str c \<and> \<not> truthy_str s \<and> \<not> truthy_str n"
  then have "edit_fields_ext N d a c s n = []" by (simp add: edit_fields_ext_falsy)
  then show "edit_expense_ext N db i d a c s n =
        (Reply [(''status'', PStr ''error''), (''message'', PStr ''No fields provided'')], db)"
    by (simp add: edit_expense_ext_def)
qed

theorem C1_edit_without_fields_witness:
  "\<not> truthy_str (Some '''') \<and> \<not> truthy_num exact (Some (PyFloat 0)) \<and> \<not> truthy_str None \<and>
   edit_expense_ext exact
     \<lparr>rows = [\<lparr>expense_id = 1, date = ''2024-01-15'', amount = 25 / 2, category = ''Food'',
               subcategory = Some '''', note_text = Some ''lunch''\<rparr>], seq = 1\<rparr>
     1 (Some '''') (Some (PyFloat 0)) None (Some '''') None =
     (Reply [(''status'', PStr ''error''), (''message'', PStr ''No fields provided'')],
      \<lparr>rows = [\<lparr>expense_id = 1, date = ''2024-01-15'', amount = 25 / 2, category = ''Food'',
               subcategory = Some '''', note_text = Some ''lunch''\<rparr>], seq = 1\<rparr>)"
  using C1_edit_without_fields
    [of exact "\<lparr>rows = [\<lparr>expense_id = 1, date = ''2024-01-15'', amount = 25 / 2, category = ''Food'',
               subcategory = Some '''', note_text = Some ''lunch''\<rparr>], seq = 1\<rparr>"
        1 "Some ''''" "Some (PyFloat 0)" None "Some ''''" None]
  by (simp add: exact_def)

subsection \<open>Rows by id\<close>










lemma bind_int_overflow: "\<not> in_int64 x \<Longrightarrow> bind_int x = Inl too_large"
  by (simp add: bind_int_def)









subsection \<open>Patch of the category alone\<close>



subsection \<open>An id without a row\<close>




subsection \<open>The id sequence\<close>

lemma fold_max_bounded:
  "list_all (\<lambda>i. i \<le> s) xs \<Longrightarrow> fold max xs (s::int) = s"
  by (induction xs) (auto simp: max_def)

lemma largest_rowid_wf: "wf_db db \<Longrightarrow> largest_rowid db = seq db"
  by (simp add: largest_rowid_def wf_db_def fold_max_bounded list_all_iff)

lemma sql_insert_ok:
  "sql_insert db (Some d) (Some a) (Some c) s n =
     (if MAX_ROWID \<le> largest_rowid db then Inl (OperationalError ''database or disk is full'')
      else Inr (db\<lparr>rows := rows db @ [\<lparr>expense_id = largest_rowid db + 1, date = d, amount = a,
                    category = c, subcategory = s, note_text = n\<rparr>],
                  seq := largest_rowid db + 1\<rparr>, largest_rowid db + 1))"
  by (simp add: sql_insert_def Let_def)

lemma sql_insert_null:
  "d = None \<or> a = None \<or> c = None \<Longrightarrow> \<exists>e. sql_insert db d a c s n = Inl e"
  by (cases d; cases a; cases c) (simp_all add: sql_insert_def)

lemma wf_db_ids:
  "wf_db db \<longleftrightarrow> distinct (map expense_id (rows db)) \<and> (\<forall>i \<in> set (map expense_id (rows db)). i \<le> seq db)"
  by (auto simp: wf_db_def list_all_iff)

lemma sql_insert_row:
  assumes "sql_insert db d a c s n = Inr (db', i)"
  shows "\<exists>dv av cv. d = Some dv \<and> a = Some av \<and> c = Some cv \<and> i = largest_rowid db + 1 \<and>
           db' = db\<lparr>rows := rows db @ [\<lparr>expense_id = i, date = dv, amount = av,
                      category = cv, subcategory = s, note_text = n\<rparr>], seq := i\<rparr>"
proof -
  from assms sql_insert_null [of d a c db s n]
  obtain dv av cv where args: "d = Some dv" "a = Some av" "c = Some cv"
    by (cases d; cases a; cases c) auto
  from assms have "i = largest_rowid db + 1 \<and>
      db' = db\<lparr>rows := rows db @ [\<lparr>expense_id = i, date = dv, amount = av,
                      category = cv, subcategory = s, note_text = n\<rparr>], seq := i\<rparr>"
    unfolding args sql_insert_ok by (auto split: if_splits)
  with args show ?thesis by simp
qed

lemma sql_insert_wf:
  assumes "wf_db db" and "sql_insert db d a c s n = Inr (db', i)"
  shows "wf_db db' \<and> i = seq db + 1 \<and> seq db' = i"
proof -
  have l: "largest_rowid db = seq db" by (rule largest_rowid_wf [OF assms(1)])
  from sql_insert_row [OF assms(2)] obtain dv av cv where
    i: "i = seq db + 1" and
    db': "db' = db\<lparr>rows := rows db @ [\<lparr>expense_id = seq db + 1, date = dv, amount = av,
             category = cv, subcategory = s, note_text = n\<rparr>], seq := seq db + 1\<rparr>"
    unfolding l by auto
  from assms(1) have ids: "distinct (map expense_id (rows db))"
    "\<forall>j \<in> set (map expense_id (rows db)). j \<le> seq db"
    by (simp_all add: wf_db_ids)
  then have "seq db + 1 \<notin> set (map expense_id (rows db))" by fastforce
  with ids have "wf_db db'"
    unfolding db' wf_db_ids by fastforce
  with db' i show ?thesis by simp
qed

lemma execute_insert_Inr:
  "execute_insert N db d a c s n = Inr p \<Longrightarrow>
   \<exists>av. bind_amount N a = Inr av \<and> sql_insert db d av c s n = Inr p"
  by (cases "bind_amount N a") (simp_all add: execute_insert_def)

lemma expense_id_assign: "expense_id (assign r f) = expense_id r"
  by (cases f) (simp_all split: option.splits)

lemma expense_id_foldl_assign: "expense_id (foldl assign r sets) = expense_id r"
  by (induction sets arbitrary: r) (simp_all add: expense_id_assign)

lemma sql_update_Inr:
  assumes "sql_update db sets x = Inr (db1, k)"
  shows "map expense_id (rows db1) = map expense_id (rows db) \<and> seq db1 = seq db"
proof -
  from assms have
    "db1 = db\<lparr>rows := map (\<lambda>r. if expense_id r = x then foldl assign r sets else r) (rows db)\<rparr>"
    by (simp add: sql_update_def split: if_splits)
  then show ?thesis by (simp add: expense_id_foldl_assign)
qed

lemma execute_update_Inr:
  assumes "execute_update N db fs x = Inr (db1, k)"
  shows "map expense_id (rows db1) = map expense_id (rows db) \<and> seq db1 = seq db"
proof (cases "bind_fields N fs")
  case (Inl e)
  with assms show ?thesis by (simp add: execute_update_def)
next
  case sets: (Inr sets)
  show ?thesis
  proof (cases "bind_int x")
    case (Inl e)
    with assms sets show ?thesis by (simp add: execute_update_def)
  next
    case (Inr j)
    with assms sets have "sql_update db sets j = Inr (db1, k)" by (simp add: execute_update_def)
    then show ?thesis by (rule sql_update_Inr)
  qed
qed

lemma wf_db_same_ids:
  "wf_db db \<Longrightarrow> map expense_id (rows db1) = map expense_id (rows db) \<Longrightarrow> seq db1 = seq db \<Longrightarrow>
   wf_db db1"
  unfolding wf_db_ids by simp

lemma sql_delete_wf: "wf_db db \<Longrightarrow> wf_db (fst (sql_delete db x))"
  by (auto simp: wf_db_def sql_delete_def list_all_iff distinct_map_filter)

lemma sql_delete_seq: "seq (fst (sql_delete db x)) = seq db"
  by (simp add: sql_delete_def)

lemma returned_id_status [simp]:
  "returned_id (Reply [(''status'', PStr st), (''id'', PInt i)]) = Some i"
  "returned_id (Reply [(''status'', PStr st), (''message'', PStr m)]) = None"
  "returned_id (Reply [(''status'', PStr st), (''rows_updated'', v)]) = None"
  "returned_id (Reply [(''status'', PStr st), (''rows_deleted'', v)]) = None"
  "returned_id (error_reply e) = None"
  by (simp_all add: error_reply_def)

lemma add_expense_step:
  assumes "wf_db db"
    and "add_expense_base N db d a c s n = (res, db') \<or> add_expense_ext N db d a c s n = (res, db')"
  shows "wf_db db' \<and> seq db \<le> seq db' \<and>
         (\<forall>i. returned_id res = Some i \<longrightarrow> seq db < i \<and> i = seq db')"
proof (cases "execute_insert N db d a c s n")
  case (Inl e)
  with assms(2) have "db' = db" "returned_id res = None"
    by (auto simp: add_expense_base_def add_expense_ext_def)
  with assms(1) show ?thesis by simp
next
  case (Inr p)
  obtain db1 i where p: "p = (db1, i)" by (cases p)
  from execute_insert_Inr [OF Inr] obtain av where "sql_insert db d av c s n = Inr (db1, i)"
    unfolding p by auto
  from sql_insert_wf [OF assms(1) this]
  have "wf_db db1" "i = seq db + 1" "seq db1 = i" by simp_all
  moreover from assms(2) Inr p
  have "res = Reply [(''status'', PStr ''ok''), (''id'', PInt i)]" "db' = db1"
    by (auto simp: add_expense_base_def add_expense_ext_def)
  ultimately show ?thesis by simp
qed

lemma edit_step:
  assumes "wf_db db"
    and "(if fs = [] then (r0, db)
          else (case execute_update N db fs x of
                  Inl e \<Rightarrow> (r1 e, db)
                | Inr (db1, rowcount) \<Rightarrow>
                    (Reply [(''status'', PStr ''ok''), (''rows_updated'', PInt (int rowcount))], db1)))
         = (res, db')"
    and "returned_id r0 = None" and "\<And>e. returned_id (r1 e) = None"
  shows "wf_db db' \<and> seq db' = seq db \<and> returned_id res = None \<and>
         map expense_id (rows db') = map expense_id (rows db)"
proof (cases "fs = []")
  case True
  with assms(2) have "res = r0" "db' = db" by simp_all
  with assms(1,3) show ?thesis by simp
next
  case False
  show ?thesis
  proof (cases "execute_update N db fs x")
    case (Inl e)
    with assms(2) False have "res = r1 e" "db' = db" by simp_all
    with assms(1,4) show ?thesis by simp
  next
    case (Inr p)
    obtain db1 k where p: "p = (db1, k)" by (cases p)
    from execute_update_Inr [OF Inr [unfolded p]]
    have same: "map expense_id (rows db1) = map expense_id (rows db)" "seq db1 = seq db"
      by simp_all
    with assms(1) have wf: "wf_db db1" by (rule wf_db_same_ids)
    from assms(2) False Inr p
    have "res = Reply [(''status'', PStr ''ok''), (''rows_updated'', PInt (int k))]" "db' = db1"
      by simp_all
    with same wf show ?thesis by simp
  qed
qed

lemma edit_expense_step:
  assumes "wf_db db"
    and "edit_expense_base N db x d a c s n = (res, db') \<or>
         edit_expense_ext N db x d a c s n = (res, db')"
  shows "wf_db db' \<and> seq db' = seq db \<and> returned_id res = None \<and>
         map expense_id (rows db') = map expense_id (rows db)"
  using assms(2)
proof
  assume h: "edit_expense_base N db x d a c s n = (res, db')"
  show ?thesis
    by (rule edit_step [OF assms(1), where fs = "edit_fields_base d a c s n" and N = N and x = x
          and ?r0.0 = "Reply [(''status'', PStr ''error''),
                            (''message'', PStr ''No fields provided to update'')]"
          and ?r1.0 = Fault])
      (use h in \<open>simp_all add: edit_expense_base_def Let_def\<close>)
next
  assume h: "edit_expense_ext N db x d a c s n = (res, db')"
  show ?thesis
    by (rule edit_step [OF assms(1), where fs = "edit_fields_ext N d a c s n" and N = N and x = x
          and ?r0.0 = "Reply [(''status'', PStr ''error''), (''message'', PStr ''No fields provided'')]"
          and ?r1.0 = error_reply])
      (use h in \<open>simp_all add: edit_expense_ext_def Let_def\<close>)
qed

lemma delete_expense_step:
  assumes "wf_db db"
    and "delete_expense_base db x = (res, db') \<or> delete_expense_ext db x = (res, db')"
  shows "wf_db db' \<and> seq db' = seq db \<and> returned_id res = None"
proof (cases "bind_int x")
  case (Inl e)
  then have "execute_delete db x = Inl e" by (simp add: execute_delete_def)
  with assms(2) have "db' = db" "returned_id res = None"
    by (auto simp: delete_expense_base_def delete_expense_ext_def)
  with assms(1) show ?thesis by simp
next
  case (Inr j)
  then have "execute_delete db x = Inr (sql_delete db j)" by (simp add: execute_delete_def)
  with assms(2) have "db' = fst (sql_delete db j)"
    "\<exists>k. res = Reply [(''status'', PStr ''ok''), (''rows_deleted'', PInt k)]"
    by (auto simp: delete_expense_base_def delete_expense_ext_def split: prod.splits)
  with assms(1) show ?thesis
    by (auto simp: sql_delete_wf sql_delete_seq)
qed

lemma perform_step:
  assumes "wf_db db" and "perform v N db c = (res, db')"
  shows "wf_db db' \<and> seq db \<le> seq db' \<and>
         (\<forall>i. returned_id res = Some i \<longrightarrow> seq db < i \<and> i = seq db')"
proof (cases c)
  case (AddExpense d a ct s n)
  with assms(2) have "add_expense_base N db d a ct s n = (res, db') \<or>
      add_expense_ext N db d a ct s n = (res, db')"
    by (cases v) simp_all
  from add_expense_step [OF assms(1) this] show ?thesis .
next
  case (EditExpense x d a ct s n)
  with assms(2) have "edit_expense_base N db x d a ct s n = (res, db') \<or>
      edit_expense_ext N db x d a ct s n = (res, db')"
    by (cases v) simp_all
  from edit_expense_step [OF assms(1) this] show ?thesis by simp
next
  case (DeleteExpense x)
  with assms(2) have "delete_expense_base db x = (res, db') \<or> delete_expense_ext db x = (res, db')"
    by (cases v) simp_all
  from delete_expense_step [OF assms(1) this] show ?thesis by simp
qed

lemma created_ids_Cons:
  "created_ids (r # rs) = (case returned_id r of None \<Rightarrow> created_ids rs | Some i \<Rightarrow> i # created_ids rs)"
  by (cases "returned_id r") (simp_all add: created_ids_def List.map_filter_simps)

lemma session_ids:
  "wf_db db \<Longrightarrow> session v N db calls = (ress, db') \<Longrightarrow>
   wf_db db' \<and> seq db \<le> seq db' \<and> sorted_wrt (<) (created_ids ress) \<and>
   (\<forall>i \<in> set (created_ids ress). seq db < i \<and> i \<le> seq db')"
proof (induction calls arbitrary: db ress db')
  case Nil
  then show ?case by (simp add: created_ids_def List.map_filter_simps)
next
  case (Cons c cs)
  obtain res db1 where p: "perform v N db c = (res, db1)" by (cases "perform v N db c")
  obtain rs db2 where s: "session v N db1 cs = (rs, db2)" by (cases "session v N db1 cs")
  from Cons.prems(2) p s have ress: "ress = res # rs" and db': "db' = db2" by simp_all
  from perform_step [OF Cons.prems(1) p]
  have wf1: "wf_db db1" and le1: "seq db \<le> seq db1"
    and ret: "\<And>i. returned_id res = Some i \<Longrightarrow> seq db < i \<and> i = seq db1" by auto
  from Cons.IH [OF wf1 s]
  have ih: "wf_db db2" "seq db1 \<le> seq db2" "sorted_wrt (<) (created_ids rs)"
    "\<forall>i \<in> set (created_ids rs). seq db1 < i \<and> i \<le> seq db2" by auto
  show ?case
  proof (cases "returned_id res")
    case None
    with ih le1 ress db' show ?thesis by (auto simp: created_ids_Cons)
  next
    case (Some i)
    from ret [OF Some] have "seq db < i" "i = seq db1" by auto
    with ih le1 ress db' Some show ?thesis by (auto simp: created_ids_Cons)
  qed
qed

lemma wf_db_init: "wf_db init_db"
  by (simp add: wf_db_def init_db_def)

text \<open>
  Claim C7. In every session that starts from a database in which ids are unique and
  the sequence counter bounds every id the table has held (the state \<^verbatim>\<open>init_db\<close> creates
  and every call preserves), the ids returned by the successful \<^verbatim>\<open>add_expense\<close> calls
  are strictly increasing in call order, hence pairwise distinct, whatever edits and
  deletes come between them; each is greater than the sequence counter and than the id
  of every row present at the start, so the id of a deleted row does not come back; and
  \<^verbatim>\<open>edit_expense\<close> leaves the id column as it is.
\<close>

theorem C7_ids_strictly_increasing:
  "wf_db db \<Longrightarrow> session v N db calls = (ress, db') \<Longrightarrow>
     sorted_wrt (<) (created_ids ress) \<and>
     (\<forall>i \<in> set (created_ids ress). seq db < i \<and> (\<forall>r \<in> set (rows db). expense_id r < i)) \<and>
     wf_db db' \<and>
     map expense_id (rows (snd (perform v N db (EditExpense x d a c s n)))) = map expense_id (rows db)"
proof -
  assume wf: "wf_db db" and run: "session v N db calls = (ress, db')"
  from session_ids [OF wf run]
  have a: "wf_db db'" "sorted_wrt (<) (created_ids ress)"
    and b: "\<forall>i \<in> set (created_ids ress). seq db < i \<and> i \<le> seq db'" by simp_all
  from wf have bound: "\<forall>r \<in> set (rows db). expense_id r \<le> seq db"
    by (simp add: wf_db_def list_all_iff)
  have c: "\<forall>i \<in> set (created_ids ress). seq db < i \<and> (\<forall>r \<in> set (rows db). expense_id r < i)"
  proof
    fix i assume "i \<in> set (created_ids ress)"
    with b have "seq db < i" by simp
    with bound show "seq db < i \<and> (\<forall>r \<in> set (rows db). expense_id r < i)" by fastforce
  qed
  obtain res db1 where p: "perform v N db (EditExpense x d a c s n) = (res, db1)"
    by (cases "perform v N db (EditExpense x d a c s n)")
  then have "edit_expense_base N db x d a c s n = (res, db1) \<or>
      edit_expense_ext N db x d a c s n = (res, db1)"
    by (cases v) simp_all
  from edit_expense_step [OF wf this] p
  have e: "map expense_id (rows (snd (perform v N db (EditExpense x d a c s n)))) =
      map expense_id (rows db)"
    by simp
  from a c e show ?thesis by simp
qed

theorem C7_ids_strictly_increasing_witness:
  "wf_db example_db \<and>
   session Base exact example_db
     [AddExpense (Some ''2024-03-01'') (Some (PyFloat 9)) (Some ''Food'') (Some '''') (Some ''''),
      DeleteExpense 4,
      AddExpense (Some ''2024-03-02'') (Some (PyInt 7)) (Some ''Food'') (Some '''') (Some '''')] =
     ([Reply [(''status'', PStr ''ok''), (''id'', PInt 4)],
       Reply [(''status'', PStr ''ok''), (''rows_deleted'', PInt 1)],
       Reply [(''status'', PStr ''ok''), (''id'', PInt 5)]],
      \<lparr>rows = [example_lunch, example_flight, example_dinner,
               \<lparr>expense_id = 5, date = ''2024-03-02'', amount = 7, category = ''Food'',
                subcategory = Some '''', note_text = Some ''''\<rparr>], seq = 5\<rparr>) \<and>
   created_ids
     ([Reply [(''status'', PStr ''ok''), (''id'', PInt 4)],
       Reply [(''status'', PStr ''ok''), (''rows_deleted'', PInt 1)],
       Reply [(''status'', PStr ''ok''), (''id'', PInt 5)]] :: rat tool_result list) = [4, 5] \<and>
   sorted_wrt (<)
     (created_ids
        ([Reply [(''status'', PStr ''ok''), (''id'', PInt 4)],
          Reply [(''status'', PStr ''ok''), (''rows_deleted'', PInt 1)],
          Reply [(''status'', PStr ''ok''), (''id'', PInt 5)]] :: rat tool_result list))"
proof -
  have wf: "wf_db example_db" by (simp add: wf_db_def example_defs)
  have run: "session Base exact example_db
     [AddExpense (Some ''2024-03-01'') (Some (PyFloat 9)) (Some ''Food'') (Some '''') (Some ''''),
      DeleteExpense 4,
      AddExpense (Some ''2024-03-02'') (Some (PyInt 7)) (Some ''Food'') (Some '''') (Some '''')] =
     ([Reply [(''status'', PStr ''ok''), (''id'', PInt 4)],
       Reply [(''status'', PStr ''ok''), (''rows_deleted'', PInt 1)],
       Reply [(''status'', PStr ''ok''), (''id'', PInt 5)]],
      \<lparr>rows = [example_lunch, example_flight, example_dinner,
               \<lparr>expense_id = 5, date = ''2024-03-02'', amount = 7, category = ''Food'',
                subcategory = Some '''', note_text = Some ''''\<rparr>], seq = 5\<rparr>)"
    by (simp add: add_expense_base_def delete_expense_base_def execute_insert_def
        execute_delete_def bind_int_def in_int64_def MIN_INT64_def sql_insert_def sql_delete_def
        largest_rowid_def MAX_ROWID_def Let_def exact_def example_defs)
  have ids: "created_ids
     ([Reply [(''status'', PStr ''ok''), (''id'', PInt 4)],
       Reply [(''status'', PStr ''ok''), (''rows_deleted'', PInt 1)],
       Reply [(''status'', PStr ''ok''), (''id'', PInt 5)]] :: rat tool_result list) = [4, 5]"
    by (simp add: created_ids_Cons created_ids_def List.map_filter_simps)
  have inc: "sorted_wrt (<)
     (created_ids
        ([Reply [(''status'', PStr ''ok''), (''id'', PInt 4)],
          Reply [(''status'', PStr ''ok''), (''rows_deleted'', PInt 1)],
          Reply [(''status'', PStr ''ok''), (''id'', PInt 5)]] :: rat tool_result list))"
    by (rule C7_ids_strictly_increasing [OF wf run, of 1 None None None None None, THEN conjunct1])
  from wf run ids inc show ?thesis by blast
qed

subsection \<open>What \<^verbatim>\<open>add_expense\<close> checks\<close>

lemma execute_insert_null:
  assumes "d = None \<or> c = None"
  shows "\<exists>e. execute_insert N db d a c s n = Inl e"
proof (cases "bind_amount N a")
  case (Inl e)
  then show ?thesis by (simp add: execute_insert_def)
next
  case (Inr av)
  from assms have "d = None \<or> av = None \<or> c = None" by blast
  from sql_insert_null [OF this] obtain e where "sql_insert db d av c s n = Inl e" by blast
  with Inr show ?thesis by (simp add: execute_insert_def)
qed

lemma execute_insert_row:
  assumes "execute_insert N db d a c s n = Inr (db', i)"
  shows "\<exists>dv av cv. d = Some dv \<and> bind_amount N a = Inr (Some av) \<and> c = Some cv \<and>
           i = largest_rowid db + 1 \<and>
           db' = db\<lparr>rows := rows db @ [\<lparr>expense_id = i, date = dv, amount = av,
                      category = cv, subcategory = s, note_text = n\<rparr>], seq := i\<rparr>"
proof -
  from execute_insert_Inr [OF assms] obtain av0 where
    b: "bind_amount N a = Inr av0" and ins: "sql_insert db d av0 c s n = Inr (db', i)" by blast
  from sql_insert_row [OF ins] b show ?thesis by blast
qed

lemma add_expense_changed:
  assumes "rows (snd (add_expense_base N db d a c s n)) \<noteq> rows db \<or>
           rows (snd (add_expense_ext N db d a c s n)) \<noteq> rows db"
  shows "\<exists>db' i. execute_insert N db d a c s n = Inr (db', i)"
proof (cases "execute_insert N db d a c s n")
  case (Inl e)
  with assms show ?thesis by (simp add: add_expense_base_def add_expense_ext_def)
next
  case (Inr p)
  then show ?thesis by (cases p) simp
qed

text \<open>
  Claim C4 says that a call with an empty or null date or category reports a
  structured validation error and inserts nothing. Neither variant tests its
  arguments: the only check is the table's \<^verbatim>\<open>NOT NULL\<close>, which the empty string passes.
  On the empty database a call with empty date and empty category inserts row 1 in
  both variants. And with the date \<^verbatim>\<open>None\<close> the base variant returns no result at all:
  the exception of the storage engine leaves the tool.
\<close>

theorem C4_counterexample:
  "add_expense_base exact init_db (Some '''') (Some (PyFloat 5)) (Some '''') (Some '''') (Some '''') =
     (Reply [(''status'', PStr ''ok''), (''id'', PInt 1)],
      \<lparr>rows = [\<lparr>expense_id = 1, date = '''', amount = 5, category = '''',
                subcategory = Some '''', note_text = Some ''''\<rparr>], seq = 1\<rparr>) \<and>
   add_expense_ext exact init_db (Some '''') (Some (PyFloat 5)) (Some '''') (Some '''') (Some '''') =
     (Reply [(''status'', PStr ''ok''), (''id'', PInt 1)],
      \<lparr>rows = [\<lparr>expense_id = 1, date = '''', amount = 5, category = '''',
                subcategory = Some '''', note_text = Some ''''\<rparr>], seq = 1\<rparr>) \<and>
   add_expense_base exact init_db None (Some (PyFloat 5)) (Some ''Food'') (Some '''') (Some '''') =
     (Fault (IntegrityError ''NOT NULL constraint failed: expenses.date''), init_db)"
  by (simp add: add_expense_base_def add_expense_ext_def execute_insert_def sql_insert_def
      largest_rowid_def MAX_ROWID_def init_db_def Let_def)

text \<open>
  Claim C4, amended. When date or category is \<^verbatim>\<open>None\<close>, no row is inserted and the
  database is unchanged: the base variant lets the exception leave the tool, the
  extended variant returns a dictionary with status \<^verbatim>\<open>error\<close> and the message of the
  exception. A call changes the table only when date and category are not \<^verbatim>\<open>None\<close>
  (they may be empty) and the amount is bound to a value that is not NULL; the call
  then appends one row, which holds the arguments, and returns status \<^verbatim>\<open>ok\<close> with the
  id of that row.
\<close>

theorem C4_add_expense_null_check:
  "(d = None \<or> c = None \<longrightarrow>
      (\<exists>e. add_expense_base N db d a c s n = (Fault e, db)) \<and>
      (\<exists>m. add_expense_ext N db d a c s n =
              (Reply [(''status'', PStr ''error''), (''message'', PStr m)], db)))
   \<and> (rows (snd (add_expense_base N db d a c s n)) \<noteq> rows db \<or>
      rows (snd (add_expense_ext N db d a c s n)) \<noteq> rows db \<longrightarrow>
      (\<exists>dv av cv.
         d = Some dv \<and> bind_amount N a = Inr (Some av) \<and> c = Some cv \<and>
         add_expense_base N db d a c s n =
           (Reply [(''status'', PStr ''ok''), (''id'', PInt (largest_rowid db + 1))],
            db\<lparr>rows := rows db @ [\<lparr>expense_id = largest_rowid db + 1, date = dv, amount = av,
                        category = cv, subcategory = s, note_text = n\<rparr>],
               seq := largest_rowid db + 1\<rparr>) \<and>
         add_expense_ext N db d a c s n =
           (Reply [(''status'', PStr ''ok''), (''id'', PInt (largest_rowid db + 1))],
            db\<lparr>rows := rows db @ [\<lparr>expense_id = largest_rowid db + 1, date = dv, amount = av,
                        category = cv, subcategory = s, note_text = n\<rparr>],
               seq := largest_rowid db + 1\<rparr>)))"
proof (intro conjI impI)
  assume null: "d = None \<or> c = None"
  from execute_insert_null [OF null] obtain e where e: "execute_insert N db d a c s n = Inl e"
    by blast
  show "\<exists>e. add_expense_base N db d a c s n = (Fault e, db)"
    by (simp add: add_expense_base_def e)
  show "\<exists>m. add_expense_ext N db d a c s n =
          (Reply [(''status'', PStr ''error''), (''message'', PStr m)], db)"
    by (simp add: add_expense_ext_def e error_reply_def)
next
  assume "rows (snd (add_expense_base N db d a c s n)) \<noteq> rows db \<or>
      rows (snd (add_expense_ext N db d a c s n)) \<noteq> rows db"
  from add_expense_changed [OF this] obtain db' i where
    ins: "execute_insert N db d a c s n = Inr (db', i)" by blast
  from execute_insert_row [OF ins] obtain dv av cv where
    args: "d = Some dv" "bind_amount N a = Inr (Some av)" "c = Some cv" and
    i: "i = largest_rowid db + 1" and
    db': "db' = db\<lparr>rows := rows db @ [\<lparr>expense_id = i, date = dv, amount = av,
                      category = cv, subcategory = s, note_text = n\<rparr>], seq := i\<rparr>"
    by blast
  have base: "add_expense_base N db d a c s n =
      (Reply [(''status'', PStr ''ok''), (''id'', PInt (largest_rowid db + 1))],
       db\<lparr>rows := rows db @ [\<lparr>expense_id = largest_rowid db + 1, date = dv, amount = av,
                   category = cv, subcategory = s, note_text = n\<rparr>],
          seq := largest_rowid db + 1\<rparr>)"
    by (simp add: add_expense_base_def ins i db')
  have ext: "add_expense_ext N db d a c s n =
      (Reply [(''status'', PStr ''ok''), (''id'', PInt (largest_rowid db + 1))],
       db\<lparr>rows := rows db @ [\<lparr>expense_id = largest_rowid db + 1, date = dv, amount = av,
                   category = cv, subcategory = s, note_text = n\<rparr>],
          seq := largest_rowid db + 1\<rparr>)"
    by (simp add: add_expense_ext_def ins i db')
  from args base ext show "\<exists>dv av cv.
         d = Some dv \<and> bind_amount N a = Inr (Some av) \<and> c = Some cv \<and>
         add_expense_base N db d a c s n =
           (Reply [(''status'', PStr ''ok''), (''id'', PInt (largest_rowid db + 1))],
            db\<lparr>rows := rows db @ [\<lparr>expense_id = largest_rowid db + 1, date = dv, amount = av,
                        category = cv, subcategory = s, note_text = n\<rparr>],
               seq := largest_rowid db + 1\<rparr>) \<and>
         add_expense_ext N db d a c s n =
           (Reply [(''status'', PStr ''ok''), (''id'', PInt (largest_rowid db + 1))],
            db\<lparr>rows := rows db @ [\<lparr>expense_id = largest_rowid db + 1, date = dv, amount = av,
                        category = cv, subcategory = s, note_text = n\<rparr>],
               seq := largest_rowid db + 1\<rparr>)"
    by blast
qed

theorem C4_add_expense_null_check_witness:
  "add_expense_base exact example_db None (Some (PyFloat 5)) (Some ''Food'') (Some '''') (Some '''') =
     (Fault (IntegrityError ''NOT NULL constraint failed: expenses.date''), example_db) \<and>
   add_expense_ext exact example_db (Some ''2024-03-01'') (Some (PyFloat 5)) None (Some '''') (Some '''') =
     (Reply [(''status'', PStr ''error''),
             (''message'', PStr ''NOT NULL constraint failed: expenses.category'')], example_db) \<and>
   rows (snd (add_expense_ext exact example_db (Some ''2024-03-01'') (Some (PyInt 5)) (Some ''Food'')
                (Some '''') None)) \<noteq> rows example_db \<and>
   bind_amount exact (Some (PyInt 5)) = Inr (Some 5) \<and>
   add_expense_base exact example_db (Some ''2024-03-01'') (Some (PyInt 5)) (Some ''Food'')
       (Some '''') None =
     (Reply [(''status'', PStr ''ok''), (''id'', PInt 4)],
      \<lparr>rows = [example_lunch, example_flight, example_dinner,
               \<lparr>expense_id = 4, date = ''2024-03-01'', amount = 5, category = ''Food'',
                subcategory = Some '''', note_text = None\<rparr>], seq = 4\<rparr>)"
proof -
  have l: "largest_rowid example_db = 3"
    by (simp add: largest_rowid_def example_defs)
  have b: "bind_amount exact (Some (PyInt 5)) = Inr (Some 5)"
    by (simp add: exact_def in_int64_def MIN_INT64_def MAX_ROWID_def)
  have 1: "add_expense_base exact example_db None (Some (PyFloat 5)) (Some ''Food'') (Some '''')
       (Some '''') =
     (Fault (IntegrityError ''NOT NULL constraint failed: expenses.date''), example_db)"
    using C4_add_expense_null_check
      [of None "Some ''Food''" exact example_db "Some (PyFloat 5)" "Some ''''" "Some ''''"]
    by (auto simp: add_expense_base_def execute_insert_def sql_insert_def l MAX_ROWID_def)
  have 2: "add_expense_ext exact example_db (Some ''2024-03-01'') (Some (PyFloat 5)) None (Some '''')
       (Some '''') =
     (Reply [(''status'', PStr ''error''),
             (''message'', PStr ''NOT NULL constraint failed: expenses.category'')], example_db)"
    using C4_add_expense_null_check
      [of "Some ''2024-03-01''" None exact example_db "Some (PyFloat 5)" "Some ''''" "Some ''''"]
    by (auto simp: add_expense_ext_def execute_insert_def sql_insert_def l MAX_ROWID_def
        error_reply_def)
  have 3: "rows (snd (add_expense_ext exact example_db (Some ''2024-03-01'') (Some (PyInt 5))
       (Some ''Food'') (Some '''') None)) \<noteq> rows example_db"
    by (simp add: add_expense_ext_def execute_insert_def in_int64_def MIN_INT64_def sql_insert_def l
        MAX_ROWID_def Let_def)
  have 4: "add_expense_base exact example_db (Some ''2024-03-01'') (Some (PyInt 5)) (Some ''Food'')
       (Some '''') None =
     (Reply [(''status'', PStr ''ok''), (''id'', PInt 4)],
      \<lparr>rows = [example_lunch, example_flight, example_dinner,
               \<lparr>expense_id = 4, date = ''2024-03-01'', amount = 5, category = ''Food'',
                subcategory = Some '''', note_text = None\<rparr>], seq = 4\<rparr>)"
    using 3 C4_add_expense_null_check
      [of "Some ''2024-03-01''" "Some ''Food''" exact example_db "Some (PyInt 5)" "Some ''''" None]
    by (auto simp: l in_int64_def MIN_INT64_def MAX_ROWID_def exact_def) (simp add: example_db_def)
  from 1 2 3 b 4 show ?thesis by blast
qed

subsection \<open>Listing a date range\<close>





subsection \<open>Summaries by category\<close>








subsection \<open>The monthly report\<close>






subsection \<open>The categories resource\<close>

text \<open>
  Claim C9 says that every request of the resource first writes the default document
  when none exists. The base variant only reads: without a document its
  \<^verbatim>\<open>open\<close> raises \<^verbatim>\<open>FileNotFoundError\<close>, which leaves the function, and nothing is written.
\<close>

theorem C9_counterexample:
  "categories_base None = (ResourceFault FileNotFoundError, None)"
  by (simp add: categories_base_def read_text_def)

text \<open>
  Claim C9, amended. In the extended variant a request without a document writes the
  default document, the \<^verbatim>\<open>json.dump\<close> with indent 2 of the key \<^verbatim>\<open>categories\<close> with exactly
  the ten fixed labels, and returns that text; a request with a document returns the
  document's text as it is at that call and leaves it unchanged, so a second request
  without an edit returns the same text and a second request after the document was
  rewritten to \<open>t\<close> returns \<open>t\<close>. In the base variant a request with a document returns its
  text as it is at that call; without a document the fault leaves the function and no
  document is written.
\<close>

theorem C9_categories_resource:
  "categories_ext None =
     (Payload (json_dump_indent2 ''categories'' default_categories),
      Some (json_dump_indent2 ''categories'' default_categories)) \<and>
   categories_ext (Some t) = (Payload t, Some t) \<and>
   categories_base (Some t) = (Payload t, Some t) \<and>
   categories_base None = (ResourceFault FileNotFoundError, None) \<and>
   fst (categories_ext (snd (categories_ext doc))) = fst (categories_ext doc) \<and>
   fst (categories_ext (write_text (snd (categories_ext doc)) t)) = Payload t \<and>
   default_categories =
     [''Food & Dining'', ''Transportation'', ''Shopping'', ''Entertainment'',
      ''Bills & Utilities'', ''Healthcare'', ''Travel'', ''Education'', ''Business'', ''Other''] \<and>
   length default_categories = 10 \<and>
   json_dump_indent2 ''categories'' default_categories =
     ''{'' @ [CHR 0x0A] @
     ''  '' @ [CHR 0x22] @ ''categories'' @ [CHR 0x22] @ '': ['' @ [CHR 0x0A] @
     ''    '' @ [CHR 0x22] @ ''Food & Dining'' @ [CHR 0x22] @ '','' @ [CHR 0x0A] @
     ''    '' @ [CHR 0x22] @ ''Transportation'' @ [CHR 0x22] @ '','' @ [CHR 0x0A] @
     ''    '' @ [CHR 0x22] @ ''Shopping'' @ [CHR 0x22] @ '','' @ [CHR 0x0A] @
     ''    '' @ [CHR 0x22] @ ''Entertainment'' @ [CHR 0x22] @ '','' @ [CHR 0x0A] @
     ''    '' @ [CHR 0x22] @ ''Bills & Utilities'' @ [CHR 0x22] @ '','' @ [CHR 0x0A] @
     ''    '' @ [CHR 0x22] @ ''Healthcare'' @ [CHR 0x22] @ '','' @ [CHR 0x0A] @
     ''    '' @ [CHR 0x22] @ ''Travel'' @ [CHR 0x22] @ '','' @ [CHR 0x0A] @
     ''    '' @ [CHR 0x22] @ ''Education'' @ [CHR 0x22] @ '','' @ [CHR 0x0A] @
     ''    '' @ [CHR 0x22] @ ''Business'' @ [CHR 0x22] @ '','' @ [CHR 0x0A] @
     ''    '' @ [CHR 0x22] @ ''Other'' @ [CHR 0x22] @ [CHR 0x0A] @
     ''  ]'' @ [CHR 0x0A] @ ''}''"
proof (intro conjI)
  show "categories_ext None =
     (Payload (json_dump_indent2 ''categories'' default_categories),
      Some (json_dump_indent2 ''categories'' default_categories))"
    by (simp add: categories_ext_def path_exists_def write_text_def read_text_def)
  show "categories_ext (Some t) = (Payload t, Some t)"
    by (simp add: categories_ext_def path_exists_def read_text_def)
  show "categories_base (Some t) = (Payload t, Some t)"
    by (simp add: categories_base_def read_text_def)
  show "categories_base None = (ResourceFault FileNotFoundError, None)"
    by (simp add: categories_base_def read_text_def)
  show "fst (categories_ext (snd (categories_ext doc))) = fst (categories_ext doc)"
    by (cases doc) (simp_all add: categories_ext_def path_exists_def write_text_def read_text_def)
  show "fst (categories_ext (write_text (snd (categories_ext doc)) t)) = Payload t"
    by (simp add: categories_ext_def path_exists_def write_text_def read_text_def)
  show "default_categories =
     [''Food & Dining'', ''Transportation'', ''Shopping'', ''Entertainment'',
      ''Bills & Utilities'', ''Healthcare'', ''Travel'', ''Education'', ''Business'', ''Other'']"
    by (simp add: default_categories_def)
  show "length default_categories = 10"
    by (simp add: default_categories_def)
  show "json_dump_indent2 ''categories'' default_categories =
     ''{'' @ [CHR 0x0A] @
     ''  '' @ [CHR 0x22] @ ''categories'' @ [CHR 0x22] @ '': ['' @ [CHR 0x0A] @
     ''    '' @ [CHR 0x22] @ ''Food & Dining'' @ [CHR 0x22] @ '','' @ [CHR 0x0A] @
     ''    '' @ [CHR 0x22] @ ''Transportation'' @ [CHR 0x22] @ '','' @ [CHR 0x0A] @
     ''    '' @ [CHR 0x22] @ ''Shopping'' @ [CHR 0x22] @ '','' @ [CHR 0x0A] @
     ''    '' @ [CHR 0x22] @ ''Entertainment'' @ [CHR 0x22] @ '','' @ [CHR 0x0A] @
     ''    '' @ [CHR 0x22] @ ''Bills & Utilities'' @ [CHR 0x22] @ '','' @ [CHR 0x0A] @
     ''    '' @ [CHR 0x22] @ ''Healthcare'' @ [CHR 0x22] @ '','' @ [CHR 0x0A] @
     ''    '' @ [CHR 0x22] @ ''Travel'' @ [CHR 0x22] @ '','' @ [CHR 0x0A] @
     ''    '' @ [CHR 0x22] @ ''Education'' @ [CHR 0x22] @ '','' @ [CHR 0x0A] @
     ''    '' @ [CHR 0x22] @ ''Business'' @ [CHR 0x22] @ '','' @ [CHR 0x0A] @
     ''    '' @ [CHR 0x22] @ ''Other'' @ [CHR 0x22] @ [CHR 0x0A] @
     ''  ]'' @ [CHR 0x0A] @ ''}''"
    by (simp add: json_dump_indent2_def json_string_def default_categories_def)
qed

theorem C9_categories_resource_witness:
  "categories_ext (Some ''{}'') = (Payload ''{}'', Some ''{}'') \<and>
   fst (categories_ext (write_text (snd (categories_ext None)) ''{}'')) = Payload ''{}''"
  using C9_categories_resource [of "''{}''" None] by blast

subsection \<open>Wildcards in the search keyword\<close>

lemma length_skip_utf8: "length (skip_utf8 c cs) \<le> length cs"
  by (simp add: skip_utf8_def length_dropWhile_le)

lemma skip_utf8_single: "of_char c < (192::nat) \<Longrightarrow> skip_utf8 c cs = cs"
  by (simp add: skip_utf8_def)

lemma like_percent_end: "like ''%'' t"
proof (induction t rule: length_induct)
  case (1 t)
  show ?case
  proof (cases t)
    case Nil
    then show ?thesis by simp
  next
    case (Cons c cs)
    have "length (skip_utf8 c cs) < length t"
      using length_skip_utf8 [of c cs] Cons by simp
    with 1 have "like ''%'' (skip_utf8 c cs)" by blast
    with Cons show ?thesis by simp
  qed
qed

lemma like_percent_here: "like q t \<Longrightarrow> like (CHR ''%'' # q) t"
  by (cases t) simp_all

lemma dropWhile_continuation_append:
  "starts_char t \<Longrightarrow> \<exists>v. dropWhile is_continuation (u @ t) = v @ t \<and> length v \<le> length u"
proof (induction u)
  case Nil
  then have "dropWhile is_continuation t = t" by (cases t) simp_all
  then show ?case by simp
next
  case (Cons d u)
  show ?case
  proof (cases "is_continuation d")
    case True
    from Cons.IH [OF Cons.prems] obtain v where
      "dropWhile is_continuation (u @ t) = v @ t" "length v \<le> length u" by blast
    with True have "dropWhile is_continuation ((d # u) @ t) = v @ t \<and> length v \<le> length (d # u)"
      by simp
    then show ?thesis by blast
  next
    case False
    then have "dropWhile is_continuation ((d # u) @ t) = (d # u) @ t \<and>
        length (d # u) \<le> length (d # u)"
      by simp
    then show ?thesis by blast
  qed
qed

lemma skip_utf8_append:
  assumes "starts_char t"
  shows "\<exists>v. skip_utf8 c (u @ t) = v @ t \<and> length v \<le> length u"
proof (cases "(192::nat) \<le> of_char c")
  case True
  with dropWhile_continuation_append [OF assms, of u] show ?thesis
    by (simp add: skip_utf8_def)
next
  case False
  then have "skip_utf8 c (u @ t) = u @ t \<and> length u \<le> length u" by (simp add: skip_utf8_def)
  then show ?thesis by blast
qed

lemma like_percent_skip:
  "starts_char t \<Longrightarrow> like q t \<Longrightarrow> like (CHR ''%'' # q) (u @ t)"
proof (induction u rule: length_induct)
  case (1 u)
  show ?case
  proof (cases u)
    case Nil
    with 1(3) show ?thesis by (simp add: like_percent_here)
  next
    case (Cons c cs)
    from skip_utf8_append [OF 1(2), of c cs] obtain v where
      v: "skip_utf8 c (cs @ t) = v @ t" "length v \<le> length cs" by blast
    from v(2) Cons have "length v < length u" by simp
    with 1 have "like (CHR ''%'' # q) (v @ t)" by blast
    with v(1) Cons show ?thesis by simp
  qed
qed

lemma like_literal: "like q t \<Longrightarrow> like (a @ q) (a @ t)"
proof (induction a)
  case Nil
  then show ?case by simp
next
  case (Cons p ps)
  then have ih: "like (ps @ q) (ps @ t)" by simp
  show ?case
  proof (cases "p = CHR ''%''")
    case True
    from like_percent_here [OF ih] have "like (CHR ''%'' # ps @ q) (ps @ t)" .
    moreover have "skip_utf8 CHR ''%'' (ps @ t) = ps @ t" by (rule skip_utf8_single) simp
    ultimately show ?thesis using True by simp
  next
    case False
    show ?thesis
    proof (cases "p = CHR ''_''")
      case True
      have "skip_utf8 CHR ''_'' (ps @ t) = ps @ t" by (rule skip_utf8_single) simp
      with True ih show ?thesis by simp
    next
      case no: False
      with False ih show ?thesis by simp
    qed
  qed
qed

lemma like_percent_inside:
  assumes "starts_char (a @ y @ b @ z)" and "starts_char (b @ z)"
  shows "like (''%'' @ a @ ''%'' @ b @ ''%'') (x @ a @ y @ b @ z)"
proof -
  have "like (b @ ''%'') (b @ z)" by (rule like_literal) (rule like_percent_end)
  with assms(2) have "like (CHR ''%'' # b @ ''%'') (y @ b @ z)" by (rule like_percent_skip)
  then have "like (a @ CHR ''%'' # b @ ''%'') (a @ y @ b @ z)" by (rule like_literal)
  with assms(1) have "like (CHR ''%'' # a @ CHR ''%'' # b @ ''%'') (x @ a @ y @ b @ z)"
    by (rule like_percent_skip)
  then show ?thesis by simp
qed

lemma like_underscore_inside:
  assumes "of_char c < (128::nat)" and "starts_char (a @ [c] @ b @ z)"
  shows "like (''%'' @ a @ ''_'' @ b @ ''%'') (x @ a @ [c] @ b @ z)"
proof -
  have "like (b @ ''%'') (b @ z)" by (rule like_literal) (rule like_percent_end)
  moreover from assms(1) have "skip_utf8 c (b @ z) = b @ z" by (simp add: skip_utf8_single)
  ultimately have "like (CHR ''_'' # b @ ''%'') (c # b @ z)" by simp
  then have "like (a @ CHR ''_'' # b @ ''%'') (a @ c # b @ z)" by (rule like_literal)
  moreover from assms(2) have "starts_char (a @ c # b @ z)" by simp
  ultimately have "like (CHR ''%'' # a @ CHR ''_'' # b @ ''%'') (x @ a @ c # b @ z)"
    by (rule like_percent_skip [rotated])
  then show ?thesis by simp
qed

lemma like_all: "like ''%%%'' t"
proof -
  have "like ''%%'' t" by (rule like_percent_here) (rule like_percent_end)
  then show ?thesis by (rule like_percent_here)
qed

lemma c_string_nul_free: "nul_free s \<Longrightarrow> c_string s = s"
  by (auto simp: c_string_def nul_free_def takeWhile_eq_all_conv)

lemma sql_like_nul_free: "nul_free p \<Longrightarrow> nul_free t \<Longrightarrow> sql_like p t = like p t"
  by (simp add: sql_like_def c_string_nul_free)

lemma sql_like_all: "sql_like ''%%%'' t"
proof -
  have "c_string ''%%%'' = ''%%%''" by (rule c_string_nul_free) (simp add: nul_free_def)
  then show ?thesis by (simp only: sql_like_def like_all)
qed

lemma search_expenses_rows:
  assumes "length keyword + 2 \<le> MAX_LIKE_PATTERN_LENGTH"
  shows "\<exists>xs. search_expenses db keyword = Records (map row_dict xs) \<and>
        mset xs = filter_mset
          (\<lambda>r. like_nullable (''%'' @ keyword @ ''%'') (note_text r) \<or>
               sql_like (''%'' @ keyword @ ''%'') (category r) \<or>
               like_nullable (''%'' @ keyword @ ''%'') (subcategory r)) (mset (rows db))"
proof -
  let ?hit = "\<lambda>r. like_nullable (''%'' @ keyword @ ''%'') (note_text r) \<or>
               sql_like (''%'' @ keyword @ ''%'') (category r) \<or>
               like_nullable (''%'' @ keyword @ ''%'') (subcategory r)"
  let ?xs = "rev (sort_key date (rev (filter ?hit (rows db))))"
  from assms have "\<not> MAX_LIKE_PATTERN_LENGTH < length (''%'' @ keyword @ ''%'')" by simp
  then have "search_expenses db keyword = Records (map row_dict ?xs)"
    by (simp add: search_expenses_def Let_def)
  moreover have "mset ?xs = filter_mset ?hit (mset (rows db))" by simp
  ultimately show ?thesis by blast
qed

lemma search_hit:
  assumes "r \<in> set (rows db)"
    and "Some text \<in> {note_text r, Some (category r), subcategory r}"
    and "sql_like (''%'' @ keyword @ ''%'') text"
    and "length keyword + 2 \<le> MAX_LIKE_PATTERN_LENGTH"
  shows "\<exists>xs. search_expenses db keyword = Records (map row_dict xs) \<and> r \<in> set xs"
proof -
  from search_expenses_rows [OF assms(4), of db] obtain xs where
    xs: "search_expenses db keyword = Records (map row_dict xs)"
    "mset xs = filter_mset
          (\<lambda>r. like_nullable (''%'' @ keyword @ ''%'') (note_text r) \<or>
               sql_like (''%'' @ keyword @ ''%'') (category r) \<or>
               like_nullable (''%'' @ keyword @ ''%'') (subcategory r)) (mset (rows db))"
    by blast
  from assms(2,3) have "like_nullable (''%'' @ keyword @ ''%'') (note_text r) \<or>
               sql_like (''%'' @ keyword @ ''%'') (category r) \<or>
               like_nullable (''%'' @ keyword @ ''%'') (subcategory r)"
    by (cases "note_text r"; cases "subcategory r") auto
  with assms(1) have "r \<in># filter_mset
          (\<lambda>r. like_nullable (''%'' @ keyword @ ''%'') (note_text r) \<or>
               sql_like (''%'' @ keyword @ ''%'') (category r) \<or>
               like_nullable (''%'' @ keyword @ ''%'') (subcategory r)) (mset (rows db))"
    by simp
  with xs(2) have "r \<in> set xs" by (metis set_mset_mset)
  with xs(1) show ?thesis by blast
qed

lemma nul_free_append: "nul_free (u @ v) \<longleftrightarrow> nul_free u \<and> nul_free v"
  by (auto simp: nul_free_def)

lemma nul_free_percent: "nul_free ''%''" "nul_free ''_''"
  by (simp_all add: nul_free_def)

text \<open>
  Claim C10. \<^verbatim>\<open>search_expenses\<close> puts the keyword between two \<^verbatim>\<open>%\<close> without escaping,
  so a \<^verbatim>\<open>%\<close> or \<^verbatim>\<open>_\<close> in the keyword acts as a wildcard. For the keyword \<^verbatim>\<open>%\<close> the result
  holds every row of the table, each once, whatever its text fields. For a keyword
  \<open>a % b\<close>, every row in which the note, the category or the subcategory contains \<open>a\<close>
  and later \<open>b\<close>, with any text \<open>y\<close> between them, is in the result: the \<^verbatim>\<open>%\<close> stands for
  \<open>y\<close>, not for itself. For a keyword \<open>a _ b\<close>, every row in which one of the three
  fields contains \<open>a\<close>, one ASCII character and then \<open>b\<close> is in the result. In the last
  two statements the pattern has at most 50000 bytes, the field has no NUL byte, and
  the pieces are cut between characters: neither the text from \<open>a\<close> on nor the text
  from \<open>b\<close> on begins with a continuation byte of UTF-8.
\<close>

theorem C10_search_wildcards:
  "(\<exists>xs. search_expenses db ''%'' = Records (map row_dict xs) \<and> mset xs = mset (rows db)) \<and>
   (\<forall>r \<in> set (rows db).
      length a + length b + 3 \<le> MAX_LIKE_PATTERN_LENGTH \<and>
      nul_free (x @ a @ y @ b @ z) \<and> starts_char (a @ y @ b @ z) \<and> starts_char (b @ z) \<and>
      Some (x @ a @ y @ b @ z) \<in> {note_text r, Some (category r), subcategory r} \<longrightarrow>
      (\<exists>xs. search_expenses db (a @ ''%'' @ b) = Records (map row_dict xs) \<and> r \<in> set xs)) \<and>
   (\<forall>r \<in> set (rows db).
      of_char c < (128::nat) \<and>
      length a + length b + 3 \<le> MAX_LIKE_PATTERN_LENGTH \<and>
      nul_free (x @ a @ [c] @ b @ z) \<and> starts_char (a @ [c] @ b @ z) \<and>
      Some (x @ a @ [c] @ b @ z) \<in> {note_text r, Some (category r), subcategory r} \<longrightarrow>
      (\<exists>xs. search_expenses db (a @ ''_'' @ b) = Records (map row_dict xs) \<and> r \<in> set xs))"
proof (intro conjI ballI impI)
  have "length ''%'' + 2 \<le> MAX_LIKE_PATTERN_LENGTH" by (simp add: MAX_LIKE_PATTERN_LENGTH_def)
  from search_expenses_rows [OF this, of db] obtain xs where
    xs: "search_expenses db ''%'' = Records (map row_dict xs)"
    "mset xs = filter_mset
          (\<lambda>r. like_nullable (''%'' @ ''%'' @ ''%'') (note_text r) \<or>
               sql_like (''%'' @ ''%'' @ ''%'') (category r) \<or>
               like_nullable (''%'' @ ''%'' @ ''%'') (subcategory r)) (mset (rows db))"
    by blast
  have "\<And>t. sql_like (''%'' @ ''%'' @ ''%'') t" using sql_like_all by simp
  with xs(2) have "mset xs = mset (rows db)" by simp
  with xs(1) show "\<exists>xs. search_expenses db ''%'' = Records (map row_dict xs) \<and> mset xs = mset (rows db)"
    by blast
next
  fix r
  assume r: "r \<in> set (rows db)"
    and h: "length a + length b + 3 \<le> MAX_LIKE_PATTERN_LENGTH \<and>
      nul_free (x @ a @ y @ b @ z) \<and> starts_char (a @ y @ b @ z) \<and> starts_char (b @ z) \<and>
      Some (x @ a @ y @ b @ z) \<in> {note_text r, Some (category r), subcategory r}"
  from h have len: "length (a @ ''%'' @ b) + 2 \<le> MAX_LIKE_PATTERN_LENGTH" by simp
  from h have nf: "nul_free (x @ a @ y @ b @ z)" by blast
  then have nfp: "nul_free (''%'' @ (a @ ''%'' @ b) @ ''%'')"
    by (simp only: nul_free_append nul_free_percent)
  from h have "like (''%'' @ a @ ''%'' @ b @ ''%'') (x @ a @ y @ b @ z)"
    by (intro like_percent_inside) blast+
  then have "like (''%'' @ (a @ ''%'' @ b) @ ''%'') (x @ a @ y @ b @ z)" by simp
  then have m: "sql_like (''%'' @ (a @ ''%'' @ b) @ ''%'') (x @ a @ y @ b @ z)"
    by (simp only: sql_like_nul_free [OF nfp nf])
  from h have t: "Some (x @ a @ y @ b @ z) \<in> {note_text r, Some (category r), subcategory r}"
    by blast
  from search_hit [OF r t m len]
  show "\<exists>xs. search_expenses db (a @ ''%'' @ b) = Records (map row_dict xs) \<and> r \<in> set xs" .
next
  fix r
  assume r: "r \<in> set (rows db)"
    and h: "of_char c < (128::nat) \<and>
      length a + length b + 3 \<le> MAX_LIKE_PATTERN_LENGTH \<and>
      nul_free (x @ a @ [c] @ b @ z) \<and> starts_char (a @ [c] @ b @ z) \<and>
      Some (x @ a @ [c] @ b @ z) \<in> {note_text r, Some (category r), subcategory r}"
  from h have len: "length (a @ ''_'' @ b) + 2 \<le> MAX_LIKE_PATTERN_LENGTH" by simp
  from h have nf: "nul_free (x @ a @ [c] @ b @ z)" by blast
  then have nfp: "nul_free (''%'' @ (a @ ''_'' @ b) @ ''%'')"
    by (simp only: nul_free_append nul_free_percent)
  from h have "like (''%'' @ a @ ''_'' @ b @ ''%'') (x @ a @ [c] @ b @ z)"
    by (intro like_underscore_inside) blast+
  then have "like (''%'' @ (a @ ''_'' @ b) @ ''%'') (x @ a @ [c] @ b @ z)" by simp
  then have m: "sql_like (''%'' @ (a @ ''_'' @ b) @ ''%'') (x @ a @ [c] @ b @ z)"
    by (simp only: sql_like_nul_free [OF nfp nf])
  from h have t: "Some (x @ a @ [c] @ b @ z) \<in> {note_text r, Some (category r), subcategory r}"
    by blast
  from search_hit [OF r t m len]
  show "\<exists>xs. search_expenses db (a @ ''_'' @ b) = Records (map row_dict xs) \<and> r \<in> set xs" .
qed

theorem C10_search_wildcards_witness:
  "search_expenses example_db ''F%d'' =
     Records [row_dict example_dinner, row_dict example_lunch] \<and>
   search_expenses example_db ''%'' =
     Records [row_dict example_flight, row_dict example_dinner, row_dict example_lunch] \<and>
   example_lunch \<in> set (rows example_db) \<and>
   length ''F'' + length ''d'' + 3 \<le> MAX_LIKE_PATTERN_LENGTH \<and>
   nul_free ([] @ ''F'' @ ''oo'' @ ''d'' @ []) \<and>
   starts_char (''F'' @ ''oo'' @ ''d'' @ []) \<and> starts_char (''d'' @ []) \<and>
   Some ([] @ ''F'' @ ''oo'' @ ''d'' @ []) \<in>
     {note_text example_lunch, Some (category example_lunch), subcategory example_lunch} \<and>
   (\<exists>xs. search_expenses example_db (''F'' @ ''%'' @ ''d'') = Records (map row_dict xs) \<and>
         example_lunch \<in> set xs) \<and>
   of_char CHR ''o'' < (128::nat) \<and>
   length ''F'' + length ''od'' + 3 \<le> MAX_LIKE_PATTERN_LENGTH \<and>
   nul_free ([] @ ''F'' @ [CHR ''o''] @ ''od'' @ []) \<and>
   starts_char (''F'' @ [CHR ''o''] @ ''od'' @ []) \<and>
   Some ([] @ ''F'' @ [CHR ''o''] @ ''od'' @ []) \<in>
     {note_text example_lunch, Some (category example_lunch), subcategory example_lunch} \<and>
   (\<exists>xs. search_expenses example_db (''F'' @ ''_'' @ ''od'') = Records (map row_dict xs) \<and>
         example_lunch \<in> set xs)"
proof -
  have 1: "search_expenses example_db ''F%d'' =
     Records [row_dict example_dinner, row_dict example_lunch]"
    by (simp add: search_expenses_def sql_like_def c_string_def lower_ascii_def skip_utf8_def
        MAX_LIKE_PATTERN_LENGTH_def example_defs)
  have 2: "search_expenses example_db ''%'' =
     Records [row_dict example_flight, row_dict example_dinner, row_dict example_lunch]"
    by (simp add: search_expenses_def sql_like_def c_string_def lower_ascii_def skip_utf8_def
        MAX_LIKE_PATTERN_LENGTH_def example_defs)
  have 3: "example_lunch \<in> set (rows example_db)" by (simp add: example_db_def)
  have 4: "Some ([] @ ''F'' @ ''oo'' @ ''d'' @ []) \<in>
     {note_text example_lunch, Some (category example_lunch), subcategory example_lunch}"
    by (simp add: example_lunch_def)
  have 5: "of_char CHR ''o'' < (128::nat)" by simp
  have 6: "Some ([] @ ''F'' @ [CHR ''o''] @ ''od'' @ []) \<in>
     {note_text example_lunch, Some (category example_lunch), subcategory example_lunch}"
    by (simp add: example_lunch_def)
  have 7: "length ''F'' + length ''d'' + 3 \<le> MAX_LIKE_PATTERN_LENGTH"
    "length ''F'' + length ''od'' + 3 \<le> MAX_LIKE_PATTERN_LENGTH"
    by (simp_all add: MAX_LIKE_PATTERN_LENGTH_def)
  have 8: "nul_free ([] @ ''F'' @ ''oo'' @ ''d'' @ [])"
    "nul_free ([] @ ''F'' @ [CHR ''o''] @ ''od'' @ [])"
    by (simp_all add: nul_free_def)
  have 9: "starts_char (''F'' @ ''oo'' @ ''d'' @ [])" "starts_char (''d'' @ [])"
    "starts_char (''F'' @ [CHR ''o''] @ ''od'' @ [])"
    by (simp_all add: is_continuation_def)
  from C10_search_wildcards [of example_db "''F''" "''d''" "[]" "''oo''" "[]" "CHR ''o''"]
    3 4 7(1) 8(1) 9(1,2)
  have 10: "\<exists>xs. search_expenses example_db (''F'' @ ''%'' @ ''d'') = Records (map row_dict xs) \<and>
         example_lunch \<in> set xs"
    by blast
  from C10_search_wildcards [of example_db "''F''" "''od''" "[]" "[]" "[]" "CHR ''o''"]
    3 5 6 7(2) 8(2) 9(3)
  have 11: "\<exists>xs. search_expenses example_db (''F'' @ ''_'' @ ''od'') = Records (map row_dict xs) \<and>
         example_lunch \<in> set xs"
    by blast
  from 1 2 3 4 5 6 7 8 9 10 11 show ?thesis by blast
qed

end
